theory Spec2Isabelle
  imports Main "HOL-Library.Word"
begin

text \<open>
  The chat subsystem of the role-play server: the HTTP chat endpoints and the WebSocket
  server that \<^verbatim>\<open>registerRoutes\<close> of \<^verbatim>\<open>src/api.js\<close> sets up, as functions on an explicit
  state. A request handler takes the store and the request and returns the response (and
  the new store); a WebSocket listener takes the server state and returns the new one.
\<close>

section \<open>JavaScript values\<close>

text \<open>
  A JavaScript string is a sequence of UTF-16 code units; \<open>length\<close> counts code units,
  as \<^verbatim>\<open>content.length\<close> does. \<open>js\<close> embeds an ASCII literal of the source.
\<close>

type_synonym code_unit = "16 word"
type_synonym jsstring = "code_unit list"

definition js :: "string \<Rightarrow> jsstring" where
  "js s = map (\<lambda>c. of_nat (of_char c)) s"

text \<open>
  The values \<^verbatim>\<open>JSON.parse\<close> produces from a WebSocket frame, and \<open>Undefined\<close> for an
  absent property. A number is modelled where it is an integer (the ids of this program).
  The listeners test such a number for truth, compare it by type and hand it on; they
  never print it or calculate with it.
\<close>

datatype jsval =
    Undefined
  | Null
  | JBool bool
  | JNum int
  | JStr jsstring
  | JArr "jsval list"
  | JObj "(jsstring \<times> jsval) list"

text \<open>
  The result of \<^verbatim>\<open>parseInt\<close>: \<^verbatim>\<open>NaN\<close>, an integer that is a double, or an
  infinity.
\<close>

datatype jsnum = NaN | Num int | Infinity | MinusInfinity

text \<open>ToBoolean, as used by \<^verbatim>\<open>!x\<close>, \<^verbatim>\<open>x || d\<close> and \<^verbatim>\<open>c ? a : b\<close>.\<close>

fun truthy :: "jsval \<Rightarrow> bool" where
  "truthy Undefined = False"
| "truthy Null = False"
| "truthy (JBool b) = b"
| "truthy (JNum n) = (n \<noteq> 0)"
| "truthy (JStr s) = (s \<noteq> [])"
| "truthy (JArr xs) = True"
| "truthy (JObj kvs) = True"

text \<open>\<^verbatim>\<open>x || d\<close> on a number: \<^verbatim>\<open>NaN\<close> and \<open>0\<close> are falsy.\<close>

fun num_or :: "jsnum \<Rightarrow> int \<Rightarrow> jsnum" where
  "num_or NaN d = Num d"
| "num_or (Num n) d = (if n = 0 then Num d else Num n)"
| "num_or Infinity d = Infinity"
| "num_or MinusInfinity d = MinusInfinity"

text \<open>\<^verbatim>\<open>x || d\<close> on a value.\<close>

definition val_or :: "jsval \<Rightarrow> jsval \<Rightarrow> jsval" where
  "val_or x d = (if truthy x then x else d)"

text \<open>
  Reading a property that no prototype defines (\<^verbatim>\<open>type\<close>, \<^verbatim>\<open>userId\<close>,
  \<^verbatim>\<open>characterId\<close>, \<^verbatim>\<open>roomId\<close>, \<^verbatim>\<open>content\<close>, \<^verbatim>\<open>messageType\<close>) of a value that
  is neither \<^verbatim>\<open>null\<close> nor \<^verbatim>\<open>undefined\<close>: an object gives its own property, anything
  else gives \<^verbatim>\<open>undefined\<close>. The list of a \<open>JObj\<close> holds the object's own properties.
\<close>

definition get_prop :: "jsval \<Rightarrow> jsstring \<Rightarrow> jsval" where
  "get_prop v k = (case v of
       JObj kvs \<Rightarrow> (case map_of kvs k of Some x \<Rightarrow> x | None \<Rightarrow> Undefined)
     | _ \<Rightarrow> Undefined)"

subsection \<open>White space and \<^verbatim>\<open>String.prototype.trim\<close>\<close>

text \<open>WhiteSpace and LineTerminator of ECMAScript; all of them are single code units.\<close>

definition is_white_space :: "code_unit \<Rightarrow> bool" where
  "is_white_space c \<longleftrightarrow>
     c = 0x09 \<or> c = 0x0A \<or> c = 0x0B \<or> c = 0x0C \<or> c = 0x0D \<or> c = 0x20 \<or> c = 0xA0
     \<or> c = 0x1680 \<or> (0x2000 \<le> c \<and> c \<le> 0x200A) \<or> c = 0x2028 \<or> c = 0x2029
     \<or> c = 0x202F \<or> c = 0x205F \<or> c = 0x3000 \<or> c = 0xFEFF"

definition trim :: "jsstring \<Rightarrow> jsstring" where
  "trim s = rev (dropWhile is_white_space (rev (dropWhile is_white_space s)))"

subsection \<open>\<^verbatim>\<open>parseInt\<close>\<close>

text \<open>The code unit of a decimal digit, and the decimal numeral of a natural number.\<close>

definition digit_unit :: "nat \<Rightarrow> code_unit" where
  "digit_unit k = of_nat (48 + k)"

fun digits_nat :: "nat \<Rightarrow> jsstring" where
  "digits_nat n =
     (if n < 10 then [digit_unit n]
      else digits_nat (n div 10) @ [digit_unit (n mod 10)])"

declare digits_nat.simps [simp del]

definition digit_value :: "code_unit \<Rightarrow> nat option" where
  "digit_value c =
     (if 0x30 \<le> c \<and> c \<le> 0x39 then Some (unat c - 48)
      else if 0x61 \<le> c \<and> c \<le> 0x7A then Some (unat c - 87)
      else if 0x41 \<le> c \<and> c \<le> 0x5A then Some (unat c - 55)
      else None)"

definition is_radix_digit :: "nat \<Rightarrow> code_unit \<Rightarrow> bool" where
  "is_radix_digit R c = (case digit_value c of None \<Rightarrow> False | Some d \<Rightarrow> d < R)"

definition radix_value :: "nat \<Rightarrow> jsstring \<Rightarrow> nat" where
  "radix_value R ds =
     foldl (\<lambda>a c. case digit_value c of Some d \<Rightarrow> a * R + d | None \<Rightarrow> a) 0 ds"

text \<open>
  The double nearest to a natural number, ties to the even mantissa; \<open>None\<close> when it is
  an infinity. A double has 53 bits of mantissa, so a number up to \<open>2^53\<close> is its own
  double; a larger one keeps its 53 leading bits, rounded by the bits that are dropped.
\<close>

fun bit_length :: "nat \<Rightarrow> nat" where
  "bit_length n = (if n = 0 then 0 else Suc (bit_length (n div 2)))"

declare bit_length.simps [simp del]

definition to_double :: "nat \<Rightarrow> nat option" where
  "to_double n =
     (if n \<le> 2 ^ 53 then Some n
      else
        (let e = bit_length n - 53;
             q = n div 2 ^ e;
             r = n mod 2 ^ e;
             mantissa = (if 2 ^ e < 2 * r \<or> (2 * r = 2 ^ e \<and> odd q) then q + 1 else q)
         in if 2 ^ 1024 \<le> mantissa * 2 ^ e then None else Some (mantissa * 2 ^ e)))"

text \<open>
  \<^verbatim>\<open>parseInt(s)\<close> with no radix argument: skip leading white space, read a sign, strip a
  \<^verbatim>\<open>0x\<close>/\<^verbatim>\<open>0X\<close> prefix (radix 16, otherwise radix 10), read the longest run of digits;
  \<^verbatim>\<open>NaN\<close> when the run is empty, otherwise the double nearest to the number read.
\<close>

definition parseInt :: "jsstring \<Rightarrow> jsnum" where
  "parseInt s =
     (let s1 = dropWhile is_white_space s;
          negative = (case s1 of c # _ \<Rightarrow> c = 0x2D | [] \<Rightarrow> False);
          s2 = (case s1 of c # r \<Rightarrow> if c = 0x2B \<or> c = 0x2D then r else s1 | [] \<Rightarrow> s1);
          hex = (case s2 of a # b # _ \<Rightarrow> a = 0x30 \<and> (b = 0x78 \<or> b = 0x58) | _ \<Rightarrow> False);
          R = (if hex then 16 else 10);
          s3 = (if hex then drop 2 s2 else s2);
          ds = takeWhile (is_radix_digit R) s3
      in if ds = [] then NaN
         else
           (case to_double (radix_value R ds) of
              None \<Rightarrow> if negative then MinusInfinity else Infinity
            | Some v \<Rightarrow> Num ((if negative then - 1 else 1) * int v)))"

section \<open>The storage layer\<close>

text \<open>
  The handlers of \<^verbatim>\<open>src/api.js\<close> call \<^verbatim>\<open>storage\<close> (module \<^verbatim>\<open>./storage\<close>) and
  \<^verbatim>\<open>insertMessageSchema\<close> (module \<^verbatim>\<open>@shared/schema\<close>); neither module is among the
  sources. The data they exchange with the handlers is fixed by the handlers' code.
\<close>

record character_names =
  firstName :: jsstring
  middleName :: "jsstring option"
  lastName :: jsstring

record character = character_names +
  userId :: int

record message =
  msg_id :: int
  roomId :: int
  characterId :: int
  content :: jsstring
  messageType :: jsstring
  createdAt :: nat
  archivedAt :: "nat option"

text \<open>A row of \<^verbatim>\<open>getMessagesByRoom\<close>: the handlers read \<^verbatim>\<open>msg.character\<close> of it.\<close>

record message_row = message +
  character :: "character_names option"

text \<open>
  The object handed to \<^verbatim>\<open>storage.createMessage\<close>. The handlers build it from
  \<^verbatim>\<open>parseInt\<close> results and from client values, so an id may be \<^verbatim>\<open>NaN\<close> and the
  tag any truthy value.
\<close>

record insert_message =
  ins_roomId :: jsnum
  ins_characterId :: jsnum
  ins_content :: jsstring
  ins_messageType :: jsval

datatype store_error = ValidationError | PersistenceError

record store =
  messages :: "message list"
  characters :: "(int \<times> character) list"
  nextId :: int
  now :: nat

text \<open>
  Modelled from the spec: \<^verbatim>\<open>storage.createMessage\<close> of \<^verbatim>\<open>./storage\<close>, which is not
  among the sources. Section 4.1: it "fails with ValidationError if content is empty or
  exceeds 5000 characters after trimming; otherwise assigns an id and creation timestamp
  and appends to the room's log"; section 3: ids are assigned monotonically and the stored
  content is trimmed; section 7: malformed input (here a \<^verbatim>\<open>NaN\<close> id or a tag that is
  not a string) is a ValidationError. \<open>messages\<close> is the log, oldest first.
\<close>

definition createMessage :: "store \<Rightarrow> insert_message \<Rightarrow> store_error + message \<times> store" where
  "createMessage st d =
     (case (ins_roomId d, ins_characterId d, ins_messageType d) of
        (Num r, Num c, JStr t) \<Rightarrow>
          (let body = trim (ins_content d) in
           if length body < 1 \<or> 5000 < length body then Inl ValidationError
           else
             (let m = \<lparr>msg_id = nextId st, roomId = r, characterId = c, content = body,
                        messageType = t, createdAt = now st, archivedAt = None\<rparr>
              in Inr (m, st\<lparr>messages := messages st @ [m], nextId := nextId st + 1\<rparr>)))
      | _ \<Rightarrow> Inl ValidationError)"

text \<open>
  Modelled from the spec: \<^verbatim>\<open>storage.getCharacter\<close> of \<^verbatim>\<open>./storage\<close> (section 6:
  \<^verbatim>\<open>getCharacter(characterId) -> {firstName, middleName?, lastName} | not found\<close>). The
  handler passes the connection's bound value; a value that is not a number finds nothing.
\<close>

definition getCharacter :: "store \<Rightarrow> jsval \<Rightarrow> character option" where
  "getCharacter st v = (case v of JNum c \<Rightarrow> map_of (characters st) c | _ \<Rightarrow> None)"

text \<open>The row of a message: the message and, where the character is known, its names.\<close>

definition with_character :: "store \<Rightarrow> message \<Rightarrow> message_row" where
  "with_character st m =
     message.extend m
       (message_row.fields
          (map_option character_names.truncate (getCharacter st (JNum (characterId m)))))"

text \<open>
  Modelled from the spec: \<^verbatim>\<open>storage.getMessagesByRoom\<close> of \<^verbatim>\<open>./storage\<close>. Section
  4.1: it "returns messages newest-first, skipping \<^verbatim>\<open>offset\<close> and returning at most
  \<^verbatim>\<open>limit\<close>"; each row carries the names of the message's character (section 6). The
  spec gives the contract for a room id and non-negative integers \<^verbatim>\<open>limit\<close> and
  \<^verbatim>\<open>offset\<close> only; outside it the model reports a failed read.
\<close>

definition getMessagesByRoom ::
  "store \<Rightarrow> jsnum \<Rightarrow> jsnum \<Rightarrow> jsnum \<Rightarrow> store_error + message_row list" where
  "getMessagesByRoom st room limit offset =
     (case (room, limit, offset) of
        (Num r, Num l, Num k) \<Rightarrow>
          if l < 0 \<or> k < 0 then Inl PersistenceError
          else Inr (take (nat l) (drop (nat k)
                 (map (with_character st) (rev (filter (\<lambda>m. roomId m = r) (messages st))))))
      | _ \<Rightarrow> Inl PersistenceError)"

text \<open>
  Modelled from the spec: \<^verbatim>\<open>insertMessageSchema.parse\<close> of \<^verbatim>\<open>@shared/schema\<close>, which
  is not among the sources. Section 4.4 step 2: the payload is validated "against the
  Message shape (roomId present, content non-empty and \<open>\<le>\<close>5000 chars after trim)"; the ids
  are numbers and the tag a free-form string (section 3). \<open>None\<close> is the thrown error.
\<close>

definition insertMessageSchema_parse ::
  "jsval \<Rightarrow> jsval \<Rightarrow> jsval \<Rightarrow> jsval \<Rightarrow> insert_message option" where
  "insertMessageSchema_parse r c b t =
     (case (r, c, b, t) of
        (JNum rn, JNum cn, JStr s, JStr tag) \<Rightarrow>
          if length (trim s) < 1 \<or> 5000 < length (trim s) then None
          else Some \<lparr>ins_roomId = Num rn, ins_characterId = Num cn, ins_content = s,
                     ins_messageType = JStr tag\<rparr>
      | _ \<Rightarrow> None)"

section \<open>The HTTP chat endpoints\<close>

text \<open>
  An id field of the JSON body, \<^verbatim>\<open>roomId\<close> or \<^verbatim>\<open>characterId\<close>: absent, \<^verbatim>\<open>null\<close>, a
  number or a string. A number is an integer from \<open>-2^53\<close> to \<open>2^53 - 1\<close>, read with
  \<open>sint\<close>: in this range every integer is a double and prints as its decimal numeral.
  \<open>field_to_string\<close> is ToString, which \<^verbatim>\<open>parseInt\<close> applies to its argument.
\<close>

datatype body_field = FieldAbsent | FieldNull | FieldNumber "54 word" | FieldString jsstring

fun field_truthy :: "body_field \<Rightarrow> bool" where
  "field_truthy FieldAbsent = False"
| "field_truthy FieldNull = False"
| "field_truthy (FieldNumber n) = (n \<noteq> 0)"
| "field_truthy (FieldString s) = (s \<noteq> [])"

fun field_to_string :: "body_field \<Rightarrow> jsstring" where
  "field_to_string FieldAbsent = js ''undefined''"
| "field_to_string FieldNull = js ''null''"
| "field_to_string (FieldNumber n) =
     (if sint n < 0 then 0x2D # digits_nat (nat (- sint n)) else digits_nat (nat (sint n)))"
| "field_to_string (FieldString s) = s"

definition parseInt_field :: "body_field \<Rightarrow> jsnum" where
  "parseInt_field f = parseInt (field_to_string f)"

text \<open>
  \<^verbatim>\<open>parseInt\<close> of a query parameter: absent or a string, as the source's cast
  \<^verbatim>\<open>as string\<close> has it; an absent one is \<^verbatim>\<open>undefined\<close>.
\<close>

definition parseInt_query :: "jsstring option \<Rightarrow> jsnum" where
  "parseInt_query q = parseInt (case q of None \<Rightarrow> js ''undefined'' | Some s \<Rightarrow> s)"

text \<open>
  What a handler reads of a request: the session's user id, the route parameter, the query
  parameters and the fields of the JSON body. \<open>body_content\<close> is modelled where it is
  absent (or \<^verbatim>\<open>null\<close>) or a string.
\<close>

record request =
  session_userId :: "int option"
  params_roomId :: jsstring
  query_roomId :: "jsstring option"
  query_limit :: "jsstring option"
  query_offset :: "jsstring option"
  body_roomId :: body_field
  body_characterId :: body_field
  body_content :: "jsstring option"
  body_messageType :: jsval

record export_entry =
  exp_timestamp :: nat
  exp_character :: jsstring
  exp_message :: jsstring
  exp_type :: jsstring

datatype payload =
    Message string
  | Created message
  | Rows "message_row list"
  | Export "export_entry list"

record response =
  status :: nat
  payload :: payload

text \<open>\<^verbatim>\<open>requireAuth\<close>: \<^verbatim>\<open>if (!req.session.userId) return res.status(401)...\<close>\<close>

definition requireAuth :: "request \<Rightarrow> bool" where
  "requireAuth req = (case session_userId req of None \<Rightarrow> False | Some u \<Rightarrow> u \<noteq> 0)"

definition unauthorized :: response where
  "unauthorized = \<lparr>status = 401, payload = Message ''Unauthorized''\<rparr>"

text \<open>
  \<^verbatim>\<open>GET /api/chat/rooms/:roomId/messages\<close>. \<open>room_messages_call\<close> is the argument list
  of its call of \<^verbatim>\<open>storage.getMessagesByRoom\<close>.
\<close>

definition room_messages_call :: "request \<Rightarrow> jsnum \<times> jsnum \<times> jsnum" where
  "room_messages_call req =
     (let room = parseInt (params_roomId req);
          limit = num_or (parseInt_query (query_limit req)) 50;
          offset = num_or (parseInt_query (query_offset req)) 0
      in (room, limit, offset))"

definition get_room_messages :: "store \<Rightarrow> request \<Rightarrow> response" where
  "get_room_messages st req =
     (if \<not> requireAuth req then unauthorized
      else case room_messages_call req of (room, limit, offset) \<Rightarrow>
        (case getMessagesByRoom st room limit offset of
           Inl e \<Rightarrow> \<lparr>status = 500, payload = Message ''Failed to fetch messages''\<rparr>
         | Inr rows \<Rightarrow> \<lparr>status = 200, payload = Rows rows\<rparr>))"

text \<open>
  \<^verbatim>\<open>GET /api/chat/messages\<close>: the room id is a query parameter, and \<^verbatim>\<open>!roomId\<close>
  (\<^verbatim>\<open>NaN\<close> or \<open>0\<close>) is answered with status 400.
\<close>

definition chat_messages_call :: "request \<Rightarrow> response + jsnum \<times> jsnum \<times> jsnum" where
  "chat_messages_call req =
     (let room = parseInt_query (query_roomId req) in
      if room = NaN \<or> room = Num 0
      then Inl \<lparr>status = 400, payload = Message ''roomId is required''\<rparr>
      else
        (let limit = num_or (parseInt_query (query_limit req)) 50;
             offset = num_or (parseInt_query (query_offset req)) 0
         in Inr (room, limit, offset)))"

definition get_chat_messages :: "store \<Rightarrow> request \<Rightarrow> response" where
  "get_chat_messages st req =
     (if \<not> requireAuth req then unauthorized
      else case chat_messages_call req of
        Inl resp \<Rightarrow> resp
      | Inr (room, limit, offset) \<Rightarrow>
          (case getMessagesByRoom st room limit offset of
             Inl e \<Rightarrow> \<lparr>status = 500, payload = Message ''Failed to fetch messages''\<rparr>
           | Inr rows \<Rightarrow> \<lparr>status = 200, payload = Rows rows\<rparr>))"

text \<open>
  \<^verbatim>\<open>POST /api/chat/messages\<close>. \<open>post_message_data\<close> is the handler up to its call of
  \<^verbatim>\<open>storage.createMessage\<close>: an early response, or the \<^verbatim>\<open>messageData\<close> it passes.
  The length guard reads \<^verbatim>\<open>content.length\<close> of the content as received; \<^verbatim>\<open>trim\<close> is
  applied afterwards.
\<close>

definition post_message_data :: "request \<Rightarrow> response + insert_message" where
  "post_message_data req =
     (case body_content req of
        None \<Rightarrow>
          Inl \<lparr>status = 400, payload = Message ''roomId, characterId, and content are required''\<rparr>
      | Some c \<Rightarrow>
          if \<not> field_truthy (body_roomId req) \<or> \<not> field_truthy (body_characterId req)
             \<or> c = []
          then Inl \<lparr>status = 400,
                     payload = Message ''roomId, characterId, and content are required''\<rparr>
          else if length c < 1 \<or> 5000 < length c
          then Inl \<lparr>status = 400,
                     payload = Message ''Message content must be 1-5000 characters''\<rparr>
          else Inr \<lparr>ins_roomId = parseInt_field (body_roomId req),
                     ins_characterId = parseInt_field (body_characterId req),
                     ins_content = trim c,
                     ins_messageType = val_or (body_messageType req) (JStr (js ''text''))\<rparr>)"

definition post_chat_messages :: "store \<Rightarrow> request \<Rightarrow> response \<times> store" where
  "post_chat_messages st req =
     (if \<not> requireAuth req then (unauthorized, st)
      else case post_message_data req of
        Inl resp \<Rightarrow> (resp, st)
      | Inr messageData \<Rightarrow>
          (case createMessage st messageData of
             Inl e \<Rightarrow> (\<lparr>status = 500, payload = Message ''Failed to create message''\<rparr>, st)
           | Inr (message, st') \<Rightarrow> (\<lparr>status = 200, payload = Created message\<rparr>, st')))"

text \<open>
  \<^verbatim>\<open>GET /api/chat/rooms/:roomId/export\<close>. The template string of the source joins the
  names; a row without \<^verbatim>\<open>character\<close> makes \<^verbatim>\<open>msg.character.firstName\<close> throw, which
  the handler answers with status 500.
\<close>

definition full_name :: "character_names \<Rightarrow> jsstring" where
  "full_name ch =
     firstName ch
     @ (case middleName ch of
          None \<Rightarrow> []
        | Some m \<Rightarrow> if m = [] then [] else 0x20 # m)
     @ 0x20 # lastName ch"

definition export_row :: "message_row \<Rightarrow> export_entry option" where
  "export_row msg =
     (case character msg of
        None \<Rightarrow> None
      | Some ch \<Rightarrow>
          Some \<lparr>exp_timestamp = createdAt msg, exp_character = full_name ch,
                 exp_message = content msg, exp_type = messageType msg\<rparr>)"

fun export_rows :: "message_row list \<Rightarrow> export_entry list option" where
  "export_rows [] = Some []"
| "export_rows (msg # msgs) =
     (case export_row msg of
        None \<Rightarrow> None
      | Some e \<Rightarrow> (case export_rows msgs of None \<Rightarrow> None | Some es \<Rightarrow> Some (e # es)))"

definition get_room_export :: "store \<Rightarrow> request \<Rightarrow> response" where
  "get_room_export st req =
     (if \<not> requireAuth req then unauthorized
      else
        (let room = parseInt (params_roomId req) in
         case getMessagesByRoom st room (Num 1000) (Num 0) of
           Inl e \<Rightarrow> \<lparr>status = 500, payload = Message ''Failed to export chat''\<rparr>
         | Inr msgs \<Rightarrow>
             (case export_rows msgs of
                None \<Rightarrow> \<lparr>status = 500, payload = Message ''Failed to export chat''\<rparr>
              | Some exportData \<Rightarrow> \<lparr>status = 200, payload = Export exportData\<rparr>)))"

section \<open>The WebSocket server\<close>

text \<open>
  A socket is identified by a number. \<open>activeConnections\<close> is the handler's own map from a
  socket to the identity bound to it; \<open>sent\<close> records every \<^verbatim>\<open>send\<close>, in order, with the
  socket it was called on. \<^verbatim>\<open>wss.clients\<close>, the set of connected sockets with their
  \<^verbatim>\<open>readyState\<close>, is kept by the \<^verbatim>\<open>ws\<close> library: the handler only reads it, so it
  is an argument, taken as it is when the broadcast starts. \<open>ws_on_message\<close> is one run
  of the message listener, from the frame to the listener's end, with no other event
  handled in between; the connection's entry and the validated message, which the
  listener uses after its two \<^verbatim>\<open>await\<close>s, it has read before the first. A
  \<^verbatim>\<open>send\<close> does not throw.
\<close>

type_synonym ws = nat

datatype ready_state = CONNECTING | OPEN | CLOSING | CLOSED

record conn_info =
  conn_userId :: jsval
  conn_characterId :: jsval

datatype server_event =
    Authenticated bool
  | ErrorEvent string
  | NewMessage message character_names

record ws_state =
  activeConnections :: "ws \<rightharpoonup> conn_info"
  storage :: store
  sent :: "(ws \<times> server_event) list"

definition send :: "ws_state \<Rightarrow> ws \<Rightarrow> server_event \<Rightarrow> ws_state" where
  "send st w ev = st\<lparr>sent := sent st @ [(w, ev)]\<rparr>"

text \<open>
  \<^verbatim>\<open>wss.on('connection', ...)\<close> registers the two listeners of the socket and touches
  nothing else.
\<close>

definition ws_on_connection :: "ws_state \<Rightarrow> ws \<Rightarrow> ws_state" where
  "ws_on_connection st w = st"

text \<open>\<^verbatim>\<open>ws.on('close', ...)\<close>: \<^verbatim>\<open>activeConnections.delete(ws)\<close>.\<close>

definition ws_on_close :: "ws_state \<Rightarrow> ws \<Rightarrow> ws_state" where
  "ws_on_close st w = st\<lparr>activeConnections := (activeConnections st)(w := None)\<rparr>"

text \<open>\<^verbatim>\<open>case 'authenticate'\<close>.\<close>

definition case_authenticate :: "ws_state \<Rightarrow> ws \<Rightarrow> jsval \<Rightarrow> ws_state" where
  "case_authenticate st w message =
     send
       (st\<lparr>activeConnections := (activeConnections st)
             (w \<mapsto> \<lparr>conn_userId = get_prop message (js ''userId''),
                     conn_characterId = get_prop message (js ''characterId'')\<rparr>)\<rparr>)
       w (Authenticated True)"

text \<open>
  The \<^verbatim>\<open>forEach\<close> over \<^verbatim>\<open>wss.clients\<close>: a client whose \<^verbatim>\<open>readyState\<close> is
  \<^verbatim>\<open>WebSocket.OPEN\<close> is sent the envelope.
\<close>

fun broadcast :: "ws_state \<Rightarrow> (ws \<times> ready_state) list \<Rightarrow> server_event \<Rightarrow> ws_state" where
  "broadcast st [] ev = st"
| "broadcast st ((client, readyState) # clients) ev =
     broadcast (if readyState = OPEN then send st client ev else st) clients ev"

text \<open>
  \<^verbatim>\<open>case 'chat_message'\<close>. The error thrown by \<^verbatim>\<open>insertMessageSchema.parse\<close> or by
  \<^verbatim>\<open>storage.createMessage\<close> reaches the \<^verbatim>\<open>catch\<close> of the listener, which sends
  \<^verbatim>\<open>'Invalid message format'\<close> to the socket.
\<close>

definition case_chat_message ::
  "(ws \<times> ready_state) list \<Rightarrow> ws_state \<Rightarrow> ws \<Rightarrow> jsval \<Rightarrow> ws_state" where
  "case_chat_message clients st w message =
     (case activeConnections st w of
        None \<Rightarrow> send st w (ErrorEvent ''Not authenticated'')
      | Some connectionInfo \<Rightarrow>
          if \<not> truthy (conn_characterId connectionInfo)
          then send st w (ErrorEvent ''Not authenticated'')
          else
            (case insertMessageSchema_parse
                    (get_prop message (js ''roomId''))
                    (conn_characterId connectionInfo)
                    (get_prop message (js ''content''))
                    (val_or (get_prop message (js ''messageType'')) (JStr (js ''message''))) of
               None \<Rightarrow> send st w (ErrorEvent ''Invalid message format'')
             | Some validatedMessage \<Rightarrow>
                 (case createMessage (storage st) validatedMessage of
                    Inl e \<Rightarrow> send st w (ErrorEvent ''Invalid message format'')
                  | Inr (savedMessage, db) \<Rightarrow>
                      (case getCharacter db (conn_characterId connectionInfo) of
                         None \<Rightarrow> st\<lparr>storage := db\<rparr>
                       | Some ch \<Rightarrow>
                           broadcast (st\<lparr>storage := db\<rparr>) clients
                             (NewMessage savedMessage (character_names.truncate ch))))))"

text \<open>
  \<^verbatim>\<open>ws.on('message', ...)\<close>. The argument is the result of \<^verbatim>\<open>JSON.parse\<close>, \<open>None\<close>
  when it throws. \<^verbatim>\<open>message.type\<close> of \<^verbatim>\<open>null\<close> throws as well; an unknown type
  matches no case of the \<^verbatim>\<open>switch\<close>.
\<close>

definition ws_on_message ::
  "(ws \<times> ready_state) list \<Rightarrow> ws_state \<Rightarrow> ws \<Rightarrow> jsval option \<Rightarrow> ws_state" where
  "ws_on_message clients st w parsed =
     (case parsed of
        None \<Rightarrow> send st w (ErrorEvent ''Invalid message format'')
      | Some message \<Rightarrow>
          if message = Null \<or> message = Undefined
          then send st w (ErrorEvent ''Invalid message format'')
          else if get_prop message (js ''type'') = JStr (js ''authenticate'')
          then case_authenticate st w message
          else if get_prop message (js ''type'') = JStr (js ''chat_message'')
          then case_chat_message clients st w message
          else st)"

section \<open>Example states\<close>

text \<open>Two characters of two different users, and no message yet.\<close>

definition demo_store :: store where
  "demo_store =
     \<lparr>messages = [],
      characters =
        [(1, \<lparr>firstName = js ''Jan'', middleName = None, lastName = js ''Novak'', userId = 1\<rparr>),
         (2, \<lparr>firstName = js ''Eva'', middleName = Some (js ''Marie''), lastName = js ''Dvorak'',
               userId = 2\<rparr>)],
      nextId = 1, now = 1000\<rparr>"

text \<open>A request of user 1, who posts in room 1 as character 2 (a character of user 2).\<close>

definition demo_request :: request where
  "demo_request =
     \<lparr>session_userId = Some 1, params_roomId = js ''1'', query_roomId = Some (js ''1''),
      query_limit = None, query_offset = None,
      body_roomId = FieldNumber 1, body_characterId = FieldNumber 2,
      body_content = Some (js ''  hello ''),
      body_messageType = Undefined\<rparr>"

text \<open>5000 letters and one trailing blank.\<close>

definition long_content :: jsstring where
  "long_content = replicate 5000 0x61 @ [0x20]"

definition demo_idle :: ws_state where
  "demo_idle = \<lparr>activeConnections = Map.empty, storage = demo_store, sent = []\<rparr>"

definition authenticate_event :: "int \<Rightarrow> int \<Rightarrow> jsval" where
  "authenticate_event u c =
     JObj [(js ''type'', JStr (js ''authenticate'')), (js ''userId'', JNum u),
           (js ''characterId'', JNum c)]"

text \<open>Socket 2 is still connected but closing; socket 3 never authenticates.\<close>

definition demo_clients :: "(ws \<times> ready_state) list" where
  "demo_clients = [(1, OPEN), (2, CLOSING), (3, OPEN)]"

definition demo_two_bound :: ws_state where
  "demo_two_bound =
     ws_on_message demo_clients
       (ws_on_message demo_clients demo_idle 1 (Some (authenticate_event 1 1)))
       2 (Some (authenticate_event 2 2))"

text \<open>A chat event with no \<^verbatim>\<open>messageType\<close>, carrying a \<^verbatim>\<open>characterId\<close> of its own.\<close>

definition demo_chat :: jsval where
  "demo_chat =
     JObj [(js ''type'', JStr (js ''chat_message'')), (js ''roomId'', JNum 1),
           (js ''characterId'', JNum 2), (js ''content'', JStr (js ''hello''))]"

text \<open>Three messages in room 1, with one of room 2 in between.\<close>

definition demo_history :: store where
  "demo_history =
     demo_store
       \<lparr>messages :=
          [\<lparr>msg_id = 1, roomId = 1, characterId = 1, content = js ''first'',
            messageType = js ''text'', createdAt = 1001, archivedAt = None\<rparr>,
           \<lparr>msg_id = 2, roomId = 2, characterId = 2, content = js ''elsewhere'',
            messageType = js ''text'', createdAt = 1002, archivedAt = None\<rparr>,
           \<lparr>msg_id = 3, roomId = 1, characterId = 2, content = js ''second'',
            messageType = js ''action'', createdAt = 1003, archivedAt = None\<rparr>,
           \<lparr>msg_id = 4, roomId = 1, characterId = 1, content = js ''third'',
            messageType = js ''text'', createdAt = 1004, archivedAt = Some 1005\<rparr>],
        nextId := 5\<rparr>"

section \<open>Auxiliary facts\<close>

lemmas js_eval = js_def get_prop_def is_white_space_def trim_def val_or_def Let_def

lemma js_type_names: "js ''authenticate'' \<noteq> js ''chat_message''"
  by (simp add: js_def)

lemma get_prop_Null [simp]: "get_prop Null k = Undefined" "get_prop Undefined k = Undefined"
  by (simp_all add: get_prop_def)

lemma send_fields [simp]:
  "storage (send st w ev) = storage st"
  "activeConnections (send st w ev) = activeConnections st"
  "sent (send st w ev) = sent st @ [(w, ev)]"
  by (simp_all add: send_def)

lemma broadcast_sent:
  "broadcast st clients ev =
     st\<lparr>sent := sent st @ map (\<lambda>c. (fst c, ev)) (filter (\<lambda>c. snd c = OPEN) clients)\<rparr>"
  by (induction clients arbitrary: st) (auto simp: send_def)

lemma demo_two_bound_eq:
  "demo_two_bound =
     \<lparr>activeConnections =
        [1 \<mapsto> \<lparr>conn_userId = JNum 1, conn_characterId = JNum 1\<rparr>,
         2 \<mapsto> \<lparr>conn_userId = JNum 2, conn_characterId = JNum 2\<rparr>],
      storage = demo_store,
      sent = [(1, Authenticated True), (2, Authenticated True)]\<rparr>"
  by (simp add: demo_two_bound_def demo_idle_def authenticate_event_def ws_on_message_def
      case_authenticate_def send_def js_eval)

subsection \<open>Numerals and \<^verbatim>\<open>parseInt\<close>\<close>

lemma digit_unit_unat: "k < 10 \<Longrightarrow> unat (digit_unit k) = 48 + k"
  unfolding digit_unit_def by (subst unat_of_nat) simp

lemma decimal_digit_unit:
  "k < 10 \<Longrightarrow> 0x30 \<le> digit_unit k \<and> digit_unit k \<le> 0x39"
  by (simp add: word_le_nat_alt digit_unit_unat)

lemma decimal_digit_value:
  "k < 10 \<Longrightarrow> digit_value (digit_unit k) = Some k"
  using decimal_digit_unit [of k] by (simp add: digit_value_def digit_unit_unat)

lemma decimal_unit_props:
  assumes "(0x30 :: code_unit) \<le> c" "c \<le> 0x39"
  shows "\<not> is_white_space c" "c \<noteq> 0x2D" "c \<noteq> 0x2B" "c \<noteq> 0x78" "c \<noteq> 0x58"
    "is_radix_digit 10 c"
  using assms
  by (auto simp: is_white_space_def is_radix_digit_def digit_value_def word_le_nat_alt)

lemma digits_nat_nonempty: "digits_nat n \<noteq> []"
  by (subst digits_nat.simps) simp

lemma digits_nat_decimal:
  "c \<in> set (digits_nat n) \<Longrightarrow> 0x30 \<le> c \<and> c \<le> 0x39"
proof (induction n rule: digits_nat.induct)
  case (1 n)
  show ?case
  proof (cases "n < 10")
    case True
    with "1.prems" decimal_digit_unit [of n] show ?thesis
      by (simp add: digits_nat.simps [of n])
  next
    case False
    with "1.prems" "1.IH" decimal_digit_unit [of "n mod 10"] show ?thesis
      by (auto simp: digits_nat.simps [of n])
  qed
qed

lemma radix_value_snoc:
  "radix_value R (ds @ [c]) =
     (case digit_value c of Some d \<Rightarrow> radix_value R ds * R + d | None \<Rightarrow> radix_value R ds)"
  by (simp add: radix_value_def split: option.splits)

lemma radix_value_digits_nat: "radix_value 10 (digits_nat n) = n"
proof (induction n rule: digits_nat.induct)
  case (1 n)
  show ?case
  proof (cases "n < 10")
    case True
    then show ?thesis
      using decimal_digit_value [of n]
      by (simp add: digits_nat.simps [of n] radix_value_def)
  next
    case False
    with "1.IH" show ?thesis
      using decimal_digit_value [of "n mod 10"]
      by (simp add: digits_nat.simps [of n] radix_value_snoc)
  qed
qed

lemma parseInt_decimal:
  assumes ne: "s \<noteq> []" and dec: "\<forall>c\<in>set s. 0x30 \<le> c \<and> c \<le> 0x39"
    and small: "radix_value 10 s \<le> 2 ^ 53"
  shows "parseInt s = Num (int (radix_value 10 s))"
    and "parseInt (0x2D # s) = Num (- int (radix_value 10 s))"
proof -
  from ne obtain c cs where s: "s = c # cs" by (cases s) auto
  from dec s have c: "0x30 \<le> c" "c \<le> 0x39" by auto
  have nohex: "(case s of a # b # _ \<Rightarrow> a = 0x30 \<and> (b = 0x78 \<or> b = 0x58) | _ \<Rightarrow> False) = False"
  proof (cases cs)
    case Nil
    with s show ?thesis by simp
  next
    case (Cons b bs)
    with dec s have "0x30 \<le> b" "b \<le> 0x39" by auto
    from decimal_unit_props(4,5) [OF this] Cons s show ?thesis by simp
  qed
  have all: "takeWhile (is_radix_digit 10) s = s"
    using dec decimal_unit_props(6) by (simp add: takeWhile_eq_all_conv)
  have dw: "dropWhile is_white_space s = s"
    using s decimal_unit_props(1) [OF c] by simp
  have nosign: "(case s of c # _ \<Rightarrow> c = 0x2D | [] \<Rightarrow> False) = False"
    "(case s of c # r \<Rightarrow> if c = 0x2B \<or> c = 0x2D then r else s | [] \<Rightarrow> s) = s"
    using s decimal_unit_props(2,3) [OF c] by simp_all
  from small have exact: "to_double (radix_value 10 s) = Some (radix_value 10 s)"
    by (simp add: to_double_def)
  show "parseInt s = Num (int (radix_value 10 s))"
    unfolding parseInt_def dw Let_def nosign nohex
    using ne by (simp add: all exact)
  have "\<not> is_white_space 0x2D" by (simp add: is_white_space_def)
  then show "parseInt (0x2D # s) = Num (- int (radix_value 10 s))"
    unfolding parseInt_def Let_def
    using nohex ne by (simp add: all exact)
qed

text \<open>A number field is read back by \<^verbatim>\<open>parseInt\<close> as the number it holds.\<close>

lemma parseInt_field_number: "parseInt_field (FieldNumber n) = Num (sint n)"
proof -
  have lo: "- (2 ^ 53) \<le> sint n" using sint_ge [of n] by simp
  have hi: "sint n < 2 ^ 53" using sint_lt [of n] by simp
  show ?thesis
  proof (cases "sint n < 0")
    case True
    with lo have "nat (- sint n) \<le> 2 ^ 53" by simp
    then have "radix_value 10 (digits_nat (nat (- sint n))) \<le> 2 ^ 53"
      by (simp add: radix_value_digits_nat)
    from parseInt_decimal(2) [OF digits_nat_nonempty _ this] digits_nat_decimal True
    show ?thesis by (simp add: parseInt_field_def radix_value_digits_nat)
  next
    case False
    with hi have "nat (sint n) \<le> 2 ^ 53" by simp
    then have "radix_value 10 (digits_nat (nat (sint n))) \<le> 2 ^ 53"
      by (simp add: radix_value_digits_nat)
    from parseInt_decimal(1) [OF digits_nat_nonempty _ this] digits_nat_decimal False
    show ?thesis by (simp add: parseInt_field_def radix_value_digits_nat)
  qed
qed

lemmas parseInt_eval = parseInt_field_def parseInt_query_def parseInt_def is_radix_digit_def
  digit_value_def radix_value_def to_double_def

text \<open>Beyond \<open>2^53\<close> the number read is rounded to a double.\<close>

lemma bit_length_numeral:
  "bit_length 0 = 0"
  "bit_length (Suc 0) = Suc 0"
  "bit_length (numeral k) = Suc (bit_length (numeral k div 2))"
  by (simp_all add: bit_length.simps [of 0] bit_length.simps [of "Suc 0"]
      bit_length.simps [of "numeral k"])

lemma parseInt_rounds_to_double:
  "parseInt (js ''9007199254740993'') = Num 9007199254740992"
  "parseInt (js ''-9007199254740995'') = Num (- 9007199254740996)"
  by (simp_all add: parseInt_eval js_eval bit_length_numeral)

lemma parseInt_query_cases:
  "parseInt_query q = (case q of None \<Rightarrow> NaN | Some s \<Rightarrow> parseInt s)"
proof (cases q)
  case None
  then show ?thesis by (simp add: parseInt_eval js_eval)
next
  case (Some s)
  then show ?thesis by (simp add: parseInt_query_def)
qed

subsection \<open>Trimming\<close>

lemma length_trim: "length (trim s) \<le> length s"
proof -
  have "length (dropWhile is_white_space (rev (dropWhile is_white_space s)))
          \<le> length (rev (dropWhile is_white_space s))"
    by (rule length_dropWhile_le)
  also have "\<dots> \<le> length s"
    by (simp add: length_dropWhile_le)
  finally show ?thesis by (simp add: trim_def)
qed

lemma trim_long_content: "trim long_content = replicate 5000 0x61"
  by (simp add: long_content_def trim_def is_white_space_def)

lemma trim_nonempty: "trim s \<noteq> [] \<Longrightarrow> s \<noteq> []"
  by (auto simp: trim_def)

lemma trim_Nil [simp]: "trim [] = []"
  by (simp add: trim_def)

lemma trim_trim: "trim (trim s) = trim s"
proof -
  define t where "t = dropWhile is_white_space s"
  define u where "u = dropWhile is_white_space (rev t)"
  have trim: "trim s = rev u" by (simp add: trim_def t_def u_def)
  have front: "dropWhile is_white_space (rev u) = rev u"
  proof (cases "u = []")
    case True
    then show ?thesis by simp
  next
    case False
    have "rev t = takeWhile is_white_space (rev t) @ u"
      by (simp add: u_def)
    then have "rev (rev t) = rev (takeWhile is_white_space (rev t) @ u)" by simp
    then have t: "t = rev u @ rev (takeWhile is_white_space (rev t))" by simp
    with False have "t \<noteq> []" by auto
    then have "\<not> is_white_space (hd t)"
      unfolding t_def by (rule hd_dropWhile)
    moreover from t False have "hd t = hd (rev u)"
      by (metis hd_append2 rev_is_Nil_conv)
    ultimately show ?thesis by (simp add: dropWhile_eq_self_iff)
  qed
  have "trim (rev u) = rev (dropWhile is_white_space (rev (rev u)))"
    unfolding trim_def front ..
  also have "\<dots> = rev u" by (simp add: u_def)
  finally show ?thesis by (simp add: trim)
qed

subsection \<open>The chat event, step by step\<close>

lemma createMessage_Inr:
  assumes "createMessage db v = Inr (m, db')"
  shows "messages db' = messages db @ [m] \<and> characters db' = characters db
         \<and> ins_characterId v = Num (characterId m) \<and> ins_roomId v = Num (roomId m)
         \<and> ins_messageType v = JStr (messageType m) \<and> content m = trim (ins_content v)
         \<and> msg_id m = nextId db \<and> createdAt m = now db"
  using assms
  by (auto simp: createMessage_def Let_def split: jsnum.splits jsval.splits if_splits)

lemma parse_Some:
  assumes "insertMessageSchema_parse r c b t = Some v"
  shows "\<exists>rn cn s tag. r = JNum rn \<and> c = JNum cn \<and> b = JStr s \<and> t = JStr tag
          \<and> v = \<lparr>ins_roomId = Num rn, ins_characterId = Num cn, ins_content = s,
                   ins_messageType = JStr tag\<rparr>"
  using assms
  by (auto simp: insertMessageSchema_parse_def split: jsval.splits if_splits)

lemma case_chat_message_cases:
  assumes "activeConnections st w = Some info"
  shows "(messages (storage (case_chat_message clients st w message)) = messages (storage st)
            \<and> (\<exists>e. case_chat_message clients st w message = send st w (ErrorEvent e)))
         \<or> (\<exists>v m db. truthy (conn_characterId info)
              \<and> insertMessageSchema_parse (get_prop message (js ''roomId''))
                   (conn_characterId info) (get_prop message (js ''content''))
                   (val_or (get_prop message (js ''messageType'')) (JStr (js ''message''))) = Some v
              \<and> createMessage (storage st) v = Inr (m, db)
              \<and> case_chat_message clients st w message =
                  (case getCharacter db (conn_characterId info) of
                     None \<Rightarrow> st\<lparr>storage := db\<rparr>
                   | Some ch \<Rightarrow> broadcast (st\<lparr>storage := db\<rparr>) clients
                                 (NewMessage m (character_names.truncate ch))))"
proof (cases "truthy (conn_characterId info)")
  case False
  with assms show ?thesis by (auto simp: case_chat_message_def)
next
  case t: True
  show ?thesis
  proof (cases "insertMessageSchema_parse (get_prop message (js ''roomId''))
                   (conn_characterId info) (get_prop message (js ''content''))
                   (val_or (get_prop message (js ''messageType'')) (JStr (js ''message'')))")
    case None
    with assms t show ?thesis by (auto simp: case_chat_message_def)
  next
    case (Some v)
    show ?thesis
    proof (cases "createMessage (storage st) v")
      case (Inl e)
      with assms t Some show ?thesis by (auto simp: case_chat_message_def)
    next
      case (Inr p)
      obtain m db where p: "p = (m, db)" by (cases p)
      with assms t Some Inr show ?thesis by (simp add: case_chat_message_def)
    qed
  qed
qed

text \<open>A persisted chat message, with everything the handler did on the way.\<close>

lemma chat_message_persisted:
  assumes type: "get_prop message (js ''type'') = JStr (js ''chat_message'')"
    and bound: "activeConnections st w = Some info"
    and persisted: "messages (storage (ws_on_message clients st w (Some message)))
                     \<noteq> messages (storage st)"
  shows "\<exists>rn cn s tag m db.
           get_prop message (js ''roomId'') = JNum rn
         \<and> conn_characterId info = JNum cn
         \<and> get_prop message (js ''content'') = JStr s
         \<and> val_or (get_prop message (js ''messageType'')) (JStr (js ''message'')) = JStr tag
         \<and> createMessage (storage st)
              \<lparr>ins_roomId = Num rn, ins_characterId = Num cn, ins_content = s,
               ins_messageType = JStr tag\<rparr> = Inr (m, db)
         \<and> storage (ws_on_message clients st w (Some message)) = db
         \<and> ws_on_message clients st w (Some message) =
             (case getCharacter db (conn_characterId info) of
                None \<Rightarrow> st\<lparr>storage := db\<rparr>
              | Some ch \<Rightarrow> broadcast (st\<lparr>storage := db\<rparr>) clients
                            (NewMessage m (character_names.truncate ch)))"
proof -
  from type have nn: "message \<noteq> Null" "message \<noteq> Undefined" by auto
  with type js_type_names
  have eq: "ws_on_message clients st w (Some message) = case_chat_message clients st w message"
    by (simp add: ws_on_message_def)
  from case_chat_message_cases [OF bound, of clients message] persisted eq
  obtain v m db where
    pv: "insertMessageSchema_parse (get_prop message (js ''roomId''))
                   (conn_characterId info) (get_prop message (js ''content''))
                   (val_or (get_prop message (js ''messageType'')) (JStr (js ''message''))) = Some v" and
    cm: "createMessage (storage st) v = Inr (m, db)" and
    res: "ws_on_message clients st w (Some message) =
               (case getCharacter db (conn_characterId info) of
                     None \<Rightarrow> st\<lparr>storage := db\<rparr>
                   | Some ch \<Rightarrow> broadcast (st\<lparr>storage := db\<rparr>) clients
                                 (NewMessage m (character_names.truncate ch)))"
    by auto
  from res have sto: "storage (ws_on_message clients st w (Some message)) = db"
    by (cases "getCharacter db (conn_characterId info)") (simp_all add: broadcast_sent)
  from parse_Some [OF pv] cm sto res show ?thesis by auto
qed

lemma demo_chat_result:
  "ws_on_message demo_clients demo_two_bound 1 (Some demo_chat) =
     demo_two_bound
       \<lparr>storage := demo_store
          \<lparr>messages := [\<lparr>msg_id = 1, roomId = 1, characterId = 1, content = js ''hello'',
                          messageType = js ''message'', createdAt = 1000, archivedAt = None\<rparr>],
           nextId := 2\<rparr>,
        sent := sent demo_two_bound @
          [(1, NewMessage \<lparr>msg_id = 1, roomId = 1, characterId = 1, content = js ''hello'',
                          messageType = js ''message'', createdAt = 1000, archivedAt = None\<rparr>
                 \<lparr>firstName = js ''Jan'', middleName = None, lastName = js ''Novak''\<rparr>),
           (3, NewMessage \<lparr>msg_id = 1, roomId = 1, characterId = 1, content = js ''hello'',
                          messageType = js ''message'', createdAt = 1000, archivedAt = None\<rparr>
                 \<lparr>firstName = js ''Jan'', middleName = None, lastName = js ''Novak''\<rparr>)]\<rparr>"
  by (simp add: demo_two_bound_eq demo_chat_def demo_clients_def demo_store_def
      ws_on_message_def case_chat_message_def insertMessageSchema_parse_def createMessage_def
      getCharacter_def send_def js_eval character_names.truncate_def)

subsection \<open>The demo chat event\<close>

lemma demo_chat_type: "get_prop demo_chat (js ''type'') = JStr (js ''chat_message'')"
  by (simp add: demo_chat_def js_eval)

lemma demo_chat_persisted:
  "messages (storage (ws_on_message demo_clients demo_two_bound 1 (Some demo_chat)))
     \<noteq> messages (storage demo_two_bound)"
  unfolding demo_chat_result by (simp add: demo_two_bound_eq demo_store_def)

lemma demo_bound_1:
  "activeConnections demo_two_bound 1 = Some \<lparr>conn_userId = JNum 1, conn_characterId = JNum 1\<rparr>"
  by (simp add: demo_two_bound_eq)

subsection \<open>Posting and exporting\<close>

lemma field_to_string_nonempty: "field_to_string (FieldNumber n) \<noteq> []"
  by (simp add: digits_nat_nonempty)

lemma post_message_data_valid:
  assumes "field_truthy (body_roomId req)" "field_truthy (body_characterId req)"
    and "body_content req = Some s" "s \<noteq> []" "length s \<le> 5000"
  shows "post_message_data req =
           Inr \<lparr>ins_roomId = parseInt_field (body_roomId req),
                ins_characterId = parseInt_field (body_characterId req),
                ins_content = trim s,
                ins_messageType = val_or (body_messageType req) (JStr (js ''text''))\<rparr>"
  using assms by (simp add: post_message_data_def)

lemma demo_request_fields:
  "requireAuth demo_request"
  "field_truthy (body_roomId demo_request)"
  "parseInt_field (body_roomId demo_request) = Num 1"
  "field_truthy (body_characterId demo_request)"
  "parseInt_field (body_characterId demo_request) = Num 2"
  "val_or (body_messageType demo_request) (JStr (js ''text'')) = JStr (js ''text'')"
  "body_content demo_request = Some (js ''  hello '')"
  by (simp_all add: requireAuth_def demo_request_def parseInt_field_number val_or_def)

lemma num_or_limit:
  "num_or (parseInt_query q) 50 =
     (case q of
        None \<Rightarrow> Num 50
      | Some s \<Rightarrow> if parseInt s = NaN \<or> parseInt s = Num 0 then Num 50 else parseInt s)"
  by (cases q; cases "parseInt (the q)") (auto simp: parseInt_query_cases)

lemma num_or_offset:
  "num_or (parseInt_query q) 0 =
     (case q of
        None \<Rightarrow> Num 0
      | Some s \<Rightarrow> if parseInt s = NaN then Num 0 else parseInt s)"
  by (cases q; cases "parseInt (the q)") (auto simp: parseInt_query_cases)

text \<open>Within the contract of the spec the modelled read succeeds.\<close>

lemma getMessagesByRoom_in_contract:
  "0 \<le> l \<Longrightarrow> 0 \<le> k \<Longrightarrow>
     getMessagesByRoom st (Num r) (Num l) (Num k) =
       Inr (take (nat l) (drop (nat k)
              (map (with_character st) (rev (filter (\<lambda>m. roomId m = r) (messages st))))))"
  by (simp add: getMessagesByRoom_def)

lemma with_character_fields [simp]:
  "createdAt (with_character st m) = createdAt m"
  "content (with_character st m) = content m"
  "messageType (with_character st m) = messageType m"
  "character (with_character st m) =
     map_option character_names.truncate (getCharacter st (JNum (characterId m)))"
  by (simp_all add: with_character_def message.extend_def message_row.fields_def)

lemma export_rows_map:
  assumes "\<forall>m\<in>set ms. getCharacter st (JNum (characterId m)) = Some (who m)"
  shows "export_rows (map (with_character st) ms) =
           Some (map (\<lambda>m. \<lparr>exp_timestamp = createdAt m,
                           exp_character = full_name (character_names.truncate (who m)),
                           exp_message = content m, exp_type = messageType m\<rparr>) ms)"
  using assms by (induction ms) (simp_all add: export_row_def)

section \<open>The connection registry\<close>

text \<open>
  Claim C9. Every \<^verbatim>\<open>authenticate\<close> event, whatever its payload, binds the identity
  fields it carries (\<^verbatim>\<open>undefined\<close> for a missing one) to the socket and answers the
  sender with \<^verbatim>\<open>{type: 'authenticated', success: true}\<close>. Nothing else changes and
  nothing is consulted: the new state is a function of the old one and the payload alone.
\<close>

theorem authenticate_always_binds:
  assumes "get_prop message (js ''type'') = JStr (js ''authenticate'')"
  shows "ws_on_message clients st w (Some message) =
           st\<lparr>activeConnections := (activeConnections st)
                 (w \<mapsto> \<lparr>conn_userId = get_prop message (js ''userId''),
                         conn_characterId = get_prop message (js ''characterId'')\<rparr>),
               sent := sent st @ [(w, Authenticated True)]\<rparr>"
proof -
  from assms have "message \<noteq> Null" "message \<noteq> Undefined" by auto
  with assms show ?thesis
    by (simp add: ws_on_message_def case_authenticate_def send_def)
qed

text \<open>An event with neither \<^verbatim>\<open>userId\<close> nor \<^verbatim>\<open>characterId\<close> is acknowledged all the same.\<close>

theorem authenticate_always_binds_witness:
  "ws_on_message demo_clients demo_idle 7 (Some (JObj [(js ''type'', JStr (js ''authenticate''))])) =
     demo_idle\<lparr>activeConnections := [7 \<mapsto> \<lparr>conn_userId = Undefined, conn_characterId = Undefined\<rparr>],
               sent := [(7, Authenticated True)]\<rparr>"
proof -
  have "get_prop (JObj [(js ''type'', JStr (js ''authenticate''))]) (js ''type'')
          = JStr (js ''authenticate'')"
    by (simp add: js_eval)
  from authenticate_always_binds [OF this, of demo_clients demo_idle 7]
  show ?thesis by (simp add: js_eval demo_idle_def)
qed

text \<open>
  Claim C4. A \<^verbatim>\<open>chat_message\<close> event from a socket that has no entry in the registry, or
  whose entry has no (truthy) \<^verbatim>\<open>characterId\<close>, has one effect only: the notice
  \<^verbatim>\<open>'Not authenticated'\<close> is sent to that socket. The store and the registry are as
  before, and no other socket is sent anything.
\<close>

theorem chat_message_unauthenticated:
  assumes "get_prop message (js ''type'') = JStr (js ''chat_message'')"
    and "case activeConnections st w of
           None \<Rightarrow> True
         | Some connectionInfo \<Rightarrow> \<not> truthy (conn_characterId connectionInfo)"
  shows "ws_on_message clients st w (Some message) =
           st\<lparr>sent := sent st @ [(w, ErrorEvent ''Not authenticated'')]\<rparr>"
proof -
  from assms have "message \<noteq> Null" "message \<noteq> Undefined" by auto
  with assms js_type_names show ?thesis
    by (cases "activeConnections st w")
       (simp_all add: ws_on_message_def case_chat_message_def send_def)
qed

theorem chat_message_unauthenticated_witness:
  "ws_on_message demo_clients demo_idle 3 (Some demo_chat) =
     demo_idle\<lparr>sent := [(3, ErrorEvent ''Not authenticated'')]\<rparr>"
proof -
  have t: "get_prop demo_chat (js ''type'') = JStr (js ''chat_message'')"
    by (simp add: demo_chat_def js_eval)
  have u: "case activeConnections demo_idle 3 of
             None \<Rightarrow> True
           | Some connectionInfo \<Rightarrow> \<not> truthy (conn_characterId connectionInfo)"
    by (simp add: demo_idle_def)
  from chat_message_unauthenticated [OF t u, of demo_clients]
  show ?thesis by (simp add: demo_idle_def)
qed

text \<open>
  Claim C8, as the code has it. The handler of a new connection adds no entry to the
  registry: a socket that has not authenticated simply has none. An \<^verbatim>\<open>authenticate\<close>
  event creates the entry of its socket or replaces the one there, with the identity
  fields of the payload; the \<^verbatim>\<open>close\<close> handler deletes the entry of its socket, whether
  or not there is one. The entries of all other sockets stay as they are.
\<close>

theorem registry_lifecycle:
  assumes "get_prop message (js ''type'') = JStr (js ''authenticate'')"
  shows "activeConnections (ws_on_connection st w) = activeConnections st
       \<and> activeConnections (ws_on_message clients st w (Some message)) =
           (activeConnections st)
             (w \<mapsto> \<lparr>conn_userId = get_prop message (js ''userId''),
                     conn_characterId = get_prop message (js ''characterId'')\<rparr>)
       \<and> activeConnections (ws_on_close st w) = (activeConnections st)(w := None)"
proof -
  from assms have "message \<noteq> Null" "message \<noteq> Undefined" by auto
  with assms show ?thesis
    by (simp add: ws_on_connection_def ws_on_close_def ws_on_message_def case_authenticate_def)
qed

text \<open>Connecting leaves the registry without an entry for the socket.\<close>

theorem connect_inserts_no_entry:
  "activeConnections (ws_on_connection demo_idle 1) 1 = None"
  by (simp add: ws_on_connection_def demo_idle_def)

theorem registry_lifecycle_witness:
  "activeConnections (ws_on_connection demo_idle 1) = Map.empty
   \<and> activeConnections (ws_on_message demo_clients demo_idle 1 (Some (authenticate_event 1 1))) =
       [1 \<mapsto> \<lparr>conn_userId = JNum 1, conn_characterId = JNum 1\<rparr>]
   \<and> activeConnections (ws_on_close demo_idle 1) = Map.empty"
proof -
  have "get_prop (authenticate_event 1 1) (js ''type'') = JStr (js ''authenticate'')"
    by (simp add: authenticate_event_def js_eval)
  from registry_lifecycle [OF this, of demo_idle 1 demo_clients]
  show ?thesis by (simp add: demo_idle_def authenticate_event_def js_eval)
qed

section \<open>Chat events\<close>



text \<open>
  Claim C3, as the code has it. When a \<^verbatim>\<open>chat_message\<close> event has persisted its
  message and the store finds the sender's bound character, the envelope
  \<^verbatim>\<open>{type: 'new_message', message: ...}\<close>, made of the persisted message and the
  character's three names, is sent once to every socket of \<^verbatim>\<open>wss.clients\<close> whose
  \<^verbatim>\<open>readyState\<close> is \<^verbatim>\<open>OPEN\<close>, in the order of that set, and to no other socket;
  when the store does not find the character, nothing is sent. Neither the room of the
  message nor the registry decides who receives the envelope.
\<close>

theorem chat_message_broadcast:
  assumes type: "get_prop message (js ''type'') = JStr (js ''chat_message'')"
    and bound: "activeConnections st w = Some info"
    and st': "st' = ws_on_message clients st w (Some message)"
    and persisted: "messages (storage st') \<noteq> messages (storage st)"
  shows "\<exists>m. messages (storage st') = messages (storage st) @ [m]
           \<and> sent st' = sent st @
               (case getCharacter (storage st') (conn_characterId info) of
                  None \<Rightarrow> []
                | Some ch \<Rightarrow>
                    map (\<lambda>client. (fst client, NewMessage m (character_names.truncate ch)))
                      (filter (\<lambda>client. snd client = OPEN) clients))"
proof -
  from chat_message_persisted [OF type bound persisted [unfolded st']]
  obtain v m db where
    cm: "createMessage (storage st) v = Inr (m, db)" and
    sto: "storage st' = db" and
    res: "st' = (case getCharacter db (conn_characterId info) of
                     None \<Rightarrow> st\<lparr>storage := db\<rparr>
                   | Some ch \<Rightarrow> broadcast (st\<lparr>storage := db\<rparr>) clients
                                 (NewMessage m (character_names.truncate ch)))"
    unfolding st' by blast
  from createMessage_Inr [OF cm] sto
  have log: "messages (storage st') = messages (storage st) @ [m]" by simp
  show ?thesis
  proof (cases "getCharacter db (conn_characterId info)")
    case None
    with res have "sent st' = sent st" by simp
    with None sto log show ?thesis by simp
  next
    case (Some ch)
    with res have "sent st' = sent st @
        map (\<lambda>client. (fst client, NewMessage m (character_names.truncate ch)))
          (filter (\<lambda>client. snd client = OPEN) clients)"
      by (simp add: broadcast_sent)
    with Some sto log show ?thesis by simp
  qed
qed

theorem chat_message_broadcast_witness:
  "\<exists>m. messages (storage (ws_on_message demo_clients demo_two_bound 1 (Some demo_chat)))
          = messages (storage demo_two_bound) @ [m]
      \<and> sent (ws_on_message demo_clients demo_two_bound 1 (Some demo_chat)) =
          sent demo_two_bound
          @ [(1, NewMessage m \<lparr>firstName = js ''Jan'', middleName = None, lastName = js ''Novak''\<rparr>),
             (3, NewMessage m \<lparr>firstName = js ''Jan'', middleName = None, lastName = js ''Novak''\<rparr>)]"
proof -
  have found: "getCharacter (storage (ws_on_message demo_clients demo_two_bound 1 (Some demo_chat)))
                 (conn_characterId \<lparr>conn_userId = JNum 1, conn_characterId = JNum 1\<rparr>)
               = Some \<lparr>firstName = js ''Jan'', middleName = None, lastName = js ''Novak'',
                       userId = 1\<rparr>"
    unfolding demo_chat_result by (simp add: getCharacter_def demo_store_def)
  from chat_message_broadcast [OF demo_chat_type demo_bound_1 refl demo_chat_persisted]
  show ?thesis
    unfolding found by (simp add: demo_clients_def character_names.truncate_def)
qed

text \<open>
  Socket 2 is bound to a character and still connected, but closing: it is sent nothing.
  Socket 3 never authenticated and receives the envelope.
\<close>

theorem broadcast_skips_closing_socket:
  "activeConnections demo_two_bound 2 = Some \<lparr>conn_userId = JNum 2, conn_characterId = JNum 2\<rparr>
   \<and> messages (storage demo_two_bound) = []
   \<and> messages (storage (ws_on_message demo_clients demo_two_bound 1 (Some demo_chat))) =
       [\<lparr>msg_id = 1, roomId = 1, characterId = 1, content = js ''hello'',
         messageType = js ''message'', createdAt = 1000, archivedAt = None\<rparr>]
   \<and> sent demo_two_bound = [(1, Authenticated True), (2, Authenticated True)]
   \<and> sent (ws_on_message demo_clients demo_two_bound 1 (Some demo_chat)) =
       [(1, Authenticated True), (2, Authenticated True),
        (1, NewMessage \<lparr>msg_id = 1, roomId = 1, characterId = 1, content = js ''hello'',
                        messageType = js ''message'', createdAt = 1000, archivedAt = None\<rparr>
               \<lparr>firstName = js ''Jan'', middleName = None, lastName = js ''Novak''\<rparr>),
        (3, NewMessage \<lparr>msg_id = 1, roomId = 1, characterId = 1, content = js ''hello'',
                        messageType = js ''message'', createdAt = 1000, archivedAt = None\<rparr>
               \<lparr>firstName = js ''Jan'', middleName = None, lastName = js ''Novak''\<rparr>)]"
  unfolding demo_chat_result by (simp add: demo_two_bound_eq demo_store_def)

text \<open>
  Claim C5, on the WebSocket path. A \<^verbatim>\<open>chat_message\<close> event without a
  \<^verbatim>\<open>messageType\<close> is persisted with the tag \<^verbatim>\<open>'message'\<close>, which is not
  \<^verbatim>\<open>'text'\<close>.
\<close>

theorem ws_default_message_type:
  assumes type: "get_prop message (js ''type'') = JStr (js ''chat_message'')"
    and absent: "\<not> truthy (get_prop message (js ''messageType''))"
    and bound: "activeConnections st w = Some info"
    and st': "st' = ws_on_message clients st w (Some message)"
    and persisted: "messages (storage st') \<noteq> messages (storage st)"
  shows "\<exists>m. messages (storage st') = messages (storage st) @ [m]
           \<and> messageType m = js ''message'' \<and> messageType m \<noteq> js ''text''"
proof -
  from chat_message_persisted [OF type bound persisted [unfolded st']] absent
  obtain rn cn s m db where
    cm: "createMessage (storage st)
              \<lparr>ins_roomId = Num rn, ins_characterId = Num cn, ins_content = s,
               ins_messageType = JStr (js ''message'')\<rparr> = Inr (m, db)" and
    sto: "storage st' = db"
    unfolding st' by (auto simp: val_or_def)
  have "js ''message'' \<noteq> js ''text''" by (simp add: js_def)
  with createMessage_Inr [OF cm] sto show ?thesis by simp
qed

theorem ws_default_message_type_witness:
  "\<exists>m. messages (storage (ws_on_message demo_clients demo_two_bound 1 (Some demo_chat)))
          = messages (storage demo_two_bound) @ [m]
      \<and> messageType m = js ''message'' \<and> messageType m \<noteq> js ''text''"
proof -
  have absent: "\<not> truthy (get_prop demo_chat (js ''messageType''))"
    by (simp add: demo_chat_def js_eval)
  from ws_default_message_type [OF demo_chat_type absent demo_bound_1 refl demo_chat_persisted]
  show ?thesis .
qed

section \<open>Posting a message over HTTP\<close>

text \<open>
  Claim C1, as the code has it. For a request of an authenticated session whose room id
  and character id read as numbers and whose \<^verbatim>\<open>messageType\<close> is falsy or a string, and
  for every content string: the message is created, with the trimmed content, exactly when
  the content trims to at least one character and has at most 5000 code units as
  received. Otherwise the request is rejected and the store is unchanged: with status
  400 by the handler's own checks when the content as received is empty or longer than
  5000, and with status 500, the handler's answer to the error of
  \<^verbatim>\<open>storage.createMessage\<close>, when the content trims to nothing.
\<close>

theorem post_content_length_guard:
  assumes auth: "requireAuth req"
    and room: "field_truthy (body_roomId req)" "parseInt_field (body_roomId req) = Num r"
    and char: "field_truthy (body_characterId req)"
              "parseInt_field (body_characterId req) = Num c"
    and tag: "val_or (body_messageType req) (JStr (js ''text'')) = JStr t"
    and content: "body_content req = Some s"
  shows "post_chat_messages st req =
           (if s = [] then
              (\<lparr>status = 400,
                payload = Message ''roomId, characterId, and content are required''\<rparr>, st)
            else if 5000 < length s then
              (\<lparr>status = 400,
                payload = Message ''Message content must be 1-5000 characters''\<rparr>, st)
            else if trim s = [] then
              (\<lparr>status = 500, payload = Message ''Failed to create message''\<rparr>, st)
            else
              (\<lparr>status = 200,
                payload = Created
                  \<lparr>msg_id = nextId st, roomId = r, characterId = c, content = trim s,
                   messageType = t, createdAt = now st, archivedAt = None\<rparr>\<rparr>,
               st\<lparr>messages := messages st @
                    [\<lparr>msg_id = nextId st, roomId = r, characterId = c, content = trim s,
                      messageType = t, createdAt = now st, archivedAt = None\<rparr>],
                  nextId := nextId st + 1\<rparr>))"
proof (cases "s = [] \<or> 5000 < length s")
  case True
  with auth room(1) char(1) content show ?thesis
    by (auto simp: post_chat_messages_def post_message_data_def)
next
  case False
  then have ok: "s \<noteq> []" "length s \<le> 5000" by auto
  from length_trim [of s] ok have short: "length (trim s) \<le> 5000" by simp
  from post_message_data_valid [OF room(1) char(1) content ok] room(2) char(2) tag
  have data: "post_message_data req =
                Inr \<lparr>ins_roomId = Num r, ins_characterId = Num c, ins_content = trim s,
                     ins_messageType = JStr t\<rparr>"
    by simp
  show ?thesis
  proof (cases "trim s = []")
    case True
    with auth data ok show ?thesis
      by (simp add: post_chat_messages_def createMessage_def Let_def)
  next
    case False
    with auth data ok short show ?thesis
      by (simp add: post_chat_messages_def createMessage_def trim_trim Let_def)
  qed
qed

theorem post_content_length_guard_witness:
  "post_chat_messages demo_store demo_request =
     (\<lparr>status = 200,
       payload = Created \<lparr>msg_id = 1, roomId = 1, characterId = 2, content = js ''hello'',
                          messageType = js ''text'', createdAt = 1000, archivedAt = None\<rparr>\<rparr>,
      demo_store\<lparr>messages := [\<lparr>msg_id = 1, roomId = 1, characterId = 2, content = js ''hello'',
                          messageType = js ''text'', createdAt = 1000, archivedAt = None\<rparr>],
                 nextId := 2\<rparr>)"
proof -
  have "trim (js ''  hello '') = js ''hello''" "length (js ''  hello '') = 8"
    by (simp_all add: js_eval)
  with post_content_length_guard [OF demo_request_fields, of demo_store]
  show ?thesis by (simp add: demo_store_def js_def)
qed

text \<open>
  5000 letters followed by a blank trim to 5000 characters, and the request is rejected.
\<close>

theorem post_rejects_trimmable_content:
  "length (trim long_content) = 5000
   \<and> post_chat_messages demo_store (demo_request\<lparr>body_content := Some long_content\<rparr>) =
       (\<lparr>status = 400, payload = Message ''Message content must be 1-5000 characters''\<rparr>,
        demo_store)"
proof -
  have "length long_content = 5001" by (simp add: long_content_def)
  moreover have "long_content \<noteq> []" by (simp add: long_content_def)
  ultimately show ?thesis
    by (simp add: trim_long_content post_chat_messages_def post_message_data_def
        demo_request_def requireAuth_def)
qed

text \<open>
  Claim C10. A request of an authenticated session names character \<open>n\<close> in its body, as
  a number or as its decimal numeral, with a room id, a content that trims to at least
  one character and has at most 5000 code units, and a falsy or textual \<^verbatim>\<open>messageType\<close>.
  Then the message is created and appended to the log with \<open>characterId = n\<close>: the
  answer and the new store are given in full, and neither the session's user nor the
  characters of the store (and so the owner of character \<open>n\<close>) occur in them. Moreover
  the handler treats any two authenticated users alike on every request.
\<close>

theorem post_as_any_character:
  assumes auth: "requireAuth req"
    and room: "field_truthy (body_roomId req)" "parseInt_field (body_roomId req) = Num r"
    and supplied: "body_characterId req = FieldNumber n \<and> n \<noteq> 0
                   \<or> body_characterId req = FieldString (field_to_string (FieldNumber n))"
    and content: "body_content req = Some s" "trim s \<noteq> []" "length s \<le> 5000"
    and tag: "val_or (body_messageType req) (JStr (js ''text'')) = JStr t"
  shows "post_chat_messages st req =
           (\<lparr>status = 200,
             payload = Created
               \<lparr>msg_id = nextId st, roomId = r, characterId = sint n, content = trim s,
                messageType = t, createdAt = now st, archivedAt = None\<rparr>\<rparr>,
            st\<lparr>messages := messages st @
                 [\<lparr>msg_id = nextId st, roomId = r, characterId = sint n, content = trim s,
                   messageType = t, createdAt = now st, archivedAt = None\<rparr>],
               nextId := nextId st + 1\<rparr>)
         \<and> (\<forall>u. u \<noteq> 0 \<longrightarrow>
               post_chat_messages st (req\<lparr>session_userId := Some u\<rparr>)
                 = post_chat_messages st req)"
proof
  from supplied have ch: "field_truthy (body_characterId req)"
    "parseInt_field (body_characterId req) = Num (sint n)"
    using parseInt_field_number [of n] field_to_string_nonempty [of n]
    by (auto simp: parseInt_field_def)
  from content(2) have ne: "s \<noteq> []" by (rule trim_nonempty)
  from length_trim [of s] content(3) have short: "length (trim s) \<le> 5000" by simp
  from post_message_data_valid [OF room(1) ch(1) content(1) ne content(3)] room(2) ch(2) tag
  have data: "post_message_data req =
                Inr \<lparr>ins_roomId = Num r, ins_characterId = Num (sint n), ins_content = trim s,
                     ins_messageType = JStr t\<rparr>"
    by simp
  with auth content(2) short show "post_chat_messages st req =
           (\<lparr>status = 200,
             payload = Created
               \<lparr>msg_id = nextId st, roomId = r, characterId = sint n, content = trim s,
                messageType = t, createdAt = now st, archivedAt = None\<rparr>\<rparr>,
            st\<lparr>messages := messages st @
                 [\<lparr>msg_id = nextId st, roomId = r, characterId = sint n, content = trim s,
                   messageType = t, createdAt = now st, archivedAt = None\<rparr>],
               nextId := nextId st + 1\<rparr>)"
    by (simp add: post_chat_messages_def createMessage_def trim_trim Let_def)
next
  show "\<forall>u. u \<noteq> 0 \<longrightarrow>
               post_chat_messages st (req\<lparr>session_userId := Some u\<rparr>)
                 = post_chat_messages st req"
  proof (intro allI impI)
    fix u :: int
    assume "u \<noteq> 0"
    moreover have "post_message_data (req\<lparr>session_userId := Some u\<rparr>) = post_message_data req"
      by (cases "body_content req") (simp_all add: post_message_data_def)
    ultimately
    show "post_chat_messages st (req\<lparr>session_userId := Some u\<rparr>) = post_chat_messages st req"
      using auth by (simp add: post_chat_messages_def requireAuth_def)
  qed
qed

text \<open>User 1 posts as character 2, which belongs to user 2.\<close>

theorem post_as_any_character_witness:
  "session_userId demo_request = Some 1
   \<and> map_of (characters demo_store) 2 =
       Some \<lparr>firstName = js ''Eva'', middleName = Some (js ''Marie''), lastName = js ''Dvorak'',
             userId = 2\<rparr>
   \<and> post_chat_messages demo_store demo_request =
     (\<lparr>status = 200,
       payload = Created \<lparr>msg_id = 1, roomId = 1, characterId = 2, content = js ''hello'',
                          messageType = js ''text'', createdAt = 1000, archivedAt = None\<rparr>\<rparr>,
      demo_store\<lparr>messages := [\<lparr>msg_id = 1, roomId = 1, characterId = 2, content = js ''hello'',
                          messageType = js ''text'', createdAt = 1000, archivedAt = None\<rparr>],
                 nextId := 2\<rparr>)"
proof -
  have supplied: "body_characterId demo_request = FieldNumber 2 \<and> (2 :: 54 word) \<noteq> 0
                  \<or> body_characterId demo_request = FieldString (field_to_string (FieldNumber 2))"
    by (simp add: demo_request_def)
  have content: "trim (js ''  hello '') \<noteq> []" "length (js ''  hello '') \<le> 5000"
    and trimmed: "trim (js ''  hello '') = js ''hello''"
    by (simp_all add: js_eval)
  from post_as_any_character
         [OF demo_request_fields(1,2,3) supplied demo_request_fields(7) content
             demo_request_fields(6), of demo_store]
  have "post_chat_messages demo_store demo_request =
           (\<lparr>status = 200,
             payload = Created
               \<lparr>msg_id = nextId demo_store, roomId = 1, characterId = sint (2 :: 54 word),
                content = trim (js ''  hello ''),
                messageType = js ''text'', createdAt = now demo_store, archivedAt = None\<rparr>\<rparr>,
            demo_store\<lparr>messages := messages demo_store @
                 [\<lparr>msg_id = nextId demo_store, roomId = 1, characterId = sint (2 :: 54 word),
                   content = trim (js ''  hello ''),
                   messageType = js ''text'', createdAt = now demo_store, archivedAt = None\<rparr>],
               nextId := nextId demo_store + 1\<rparr>)"
    by blast
  then show ?thesis
    by (simp add: trimmed) (simp add: demo_store_def demo_request_def)
qed

section \<open>Reading messages\<close>

text \<open>
  Claim C6, as the code has it. Both read endpoints pass \<^verbatim>\<open>limit\<close> and \<^verbatim>\<open>offset\<close>
  through \<^verbatim>\<open>parseInt\<close>: an absent value and one without a leading integer give the
  defaults 50 and 0, and so does a \<^verbatim>\<open>limit\<close> of 0; every other number, a negative one
  included, is what \<^verbatim>\<open>storage.getMessagesByRoom\<close> is called with. The handlers check
  nothing else about the two: the answer is 200 with the rows of that call, or 500 when
  the call throws, and the only 400 is that of the second endpoint for a missing or zero
  room id.
\<close>

theorem page_parameters:
  assumes auth: "requireAuth req"
  shows "get_room_messages st req =
           (case getMessagesByRoom st (parseInt (params_roomId req))
                   (case query_limit req of
                      None \<Rightarrow> Num 50
                    | Some s \<Rightarrow>
                        if parseInt s = NaN \<or> parseInt s = Num 0 then Num 50 else parseInt s)
                   (case query_offset req of
                      None \<Rightarrow> Num 0
                    | Some s \<Rightarrow> if parseInt s = NaN then Num 0 else parseInt s) of
              Inl e \<Rightarrow> \<lparr>status = 500, payload = Message ''Failed to fetch messages''\<rparr>
            | Inr rows \<Rightarrow> \<lparr>status = 200, payload = Rows rows\<rparr>)
       \<and> get_chat_messages st req =
           (case query_roomId req of
              None \<Rightarrow> \<lparr>status = 400, payload = Message ''roomId is required''\<rparr>
            | Some rs \<Rightarrow>
                if parseInt rs = NaN \<or> parseInt rs = Num 0
                then \<lparr>status = 400, payload = Message ''roomId is required''\<rparr>
                else
                  (case getMessagesByRoom st (parseInt rs)
                          (case query_limit req of
                             None \<Rightarrow> Num 50
                           | Some s \<Rightarrow>
                               if parseInt s = NaN \<or> parseInt s = Num 0 then Num 50
                               else parseInt s)
                          (case query_offset req of
                             None \<Rightarrow> Num 0
                           | Some s \<Rightarrow> if parseInt s = NaN then Num 0 else parseInt s) of
                     Inl e \<Rightarrow> \<lparr>status = 500, payload = Message ''Failed to fetch messages''\<rparr>
                   | Inr rows \<Rightarrow> \<lparr>status = 200, payload = Rows rows\<rparr>))"
proof
  from auth show "get_room_messages st req =
           (case getMessagesByRoom st (parseInt (params_roomId req))
                   (case query_limit req of
                      None \<Rightarrow> Num 50
                    | Some s \<Rightarrow>
                        if parseInt s = NaN \<or> parseInt s = Num 0 then Num 50 else parseInt s)
                   (case query_offset req of
                      None \<Rightarrow> Num 0
                    | Some s \<Rightarrow> if parseInt s = NaN then Num 0 else parseInt s) of
              Inl e \<Rightarrow> \<lparr>status = 500, payload = Message ''Failed to fetch messages''\<rparr>
            | Inr rows \<Rightarrow> \<lparr>status = 200, payload = Rows rows\<rparr>)"
    by (simp add: get_room_messages_def room_messages_call_def Let_def
        num_or_limit num_or_offset)
next
  show "get_chat_messages st req =
           (case query_roomId req of
              None \<Rightarrow> \<lparr>status = 400, payload = Message ''roomId is required''\<rparr>
            | Some rs \<Rightarrow>
                if parseInt rs = NaN \<or> parseInt rs = Num 0
                then \<lparr>status = 400, payload = Message ''roomId is required''\<rparr>
                else
                  (case getMessagesByRoom st (parseInt rs)
                          (case query_limit req of
                             None \<Rightarrow> Num 50
                           | Some s \<Rightarrow>
                               if parseInt s = NaN \<or> parseInt s = Num 0 then Num 50
                               else parseInt s)
                          (case query_offset req of
                             None \<Rightarrow> Num 0
                           | Some s \<Rightarrow> if parseInt s = NaN then Num 0 else parseInt s) of
                     Inl e \<Rightarrow> \<lparr>status = 500, payload = Message ''Failed to fetch messages''\<rparr>
                   | Inr rows \<Rightarrow> \<lparr>status = 200, payload = Rows rows\<rparr>))"
  proof (cases "query_roomId req")
    case None
    with auth show ?thesis
      by (simp add: get_chat_messages_def chat_messages_call_def parseInt_query_cases)
  next
    case (Some rs)
    with auth show ?thesis
      unfolding get_chat_messages_def chat_messages_call_def Let_def num_or_limit num_or_offset
      by (simp add: parseInt_query_cases)
  qed
qed

theorem page_parameters_witness:
  "status (get_room_messages demo_history
             (demo_request\<lparr>query_limit := Some (js ''abc''), query_offset := Some (js ''1'')\<rparr>))
     = 200
   \<and> get_chat_messages demo_history (demo_request\<lparr>query_roomId := Some (js ''0'')\<rparr>)
     = \<lparr>status = 400, payload = Message ''roomId is required''\<rparr>"
proof -
  have p: "parseInt (js ''1'') = Num 1" "parseInt (js ''abc'') = NaN"
    "parseInt (js ''0'') = Num 0"
    by (simp_all add: parseInt_eval js_eval)
  have auth: "requireAuth (demo_request\<lparr>query_limit := Some (js ''abc''),
                                          query_offset := Some (js ''1'')\<rparr>)"
    "requireAuth (demo_request\<lparr>query_roomId := Some (js ''0'')\<rparr>)"
    by (simp_all add: requireAuth_def demo_request_def)
  from page_parameters [OF auth(1), of demo_history] page_parameters [OF auth(2), of demo_history]
  show ?thesis
    by (simp add: demo_request_def p getMessagesByRoom_in_contract)
qed

text \<open>A \<^verbatim>\<open>limit\<close> of \<open>-5\<close> is not replaced by 50.\<close>

theorem negative_limit_reaches_store:
  "room_messages_call (demo_request\<lparr>query_limit := Some (js ''-5'')\<rparr>) = (Num 1, Num (- 5), Num 0)"
  by (simp add: room_messages_call_def demo_request_def parseInt_eval js_eval)

text \<open>
  Claim C7. For a request of an authenticated session for room \<open>r\<close>, every message of
  which has a known character: the export reads the room with limit 1000 and offset 0, so
  it covers the 1000 newest messages at most, newest first, and answers with one entry
  per message, in that order, made of the message's creation time, the full name of its
  character, its content and its type.
\<close>

theorem export_projects_newest_first:
  assumes auth: "requireAuth req"
    and room: "parseInt (params_roomId req) = Num r"
    and known: "\<forall>m\<in>set (messages st).
                  roomId m = r \<longrightarrow> getCharacter st (JNum (characterId m)) = Some (who m)"
  shows "get_room_export st req =
           \<lparr>status = 200,
            payload = Export
              (map (\<lambda>m. \<lparr>exp_timestamp = createdAt m,
                         exp_character =
                           firstName (who m)
                           @ (case middleName (who m) of
                                None \<Rightarrow> []
                              | Some mid \<Rightarrow> if mid = [] then [] else 0x20 # mid)
                           @ 0x20 # lastName (who m),
                         exp_message = content m, exp_type = messageType m\<rparr>)
                 (take 1000 (rev (filter (\<lambda>m. roomId m = r) (messages st)))))\<rparr>"
proof -
  let ?ms = "take 1000 (rev (filter (\<lambda>m. roomId m = r) (messages st)))"
  have "set ?ms \<subseteq> set (rev (filter (\<lambda>m. roomId m = r) (messages st)))"
    by (rule set_take_subset)
  with known have "\<forall>m\<in>set ?ms. getCharacter st (JNum (characterId m)) = Some (who m)"
    by auto
  from export_rows_map [OF this]
  have "export_rows (map (with_character st) ?ms) =
           Some (map (\<lambda>m. \<lparr>exp_timestamp = createdAt m,
                           exp_character = full_name (character_names.truncate (who m)),
                           exp_message = content m, exp_type = messageType m\<rparr>) ?ms)" .
  with auth room show ?thesis
    by (simp add: get_room_export_def getMessagesByRoom_def take_map full_name_def
        character_names.truncate_def)
qed

text \<open>Room 1 of the demo store has three messages; the export has three entries.\<close>

theorem export_projects_newest_first_witness:
  "get_room_export demo_history demo_request =
     \<lparr>status = 200,
      payload = Export
        [\<lparr>exp_timestamp = 1004, exp_character = js ''Jan Novak'', exp_message = js ''third'',
          exp_type = js ''text''\<rparr>,
         \<lparr>exp_timestamp = 1003, exp_character = js ''Eva Marie Dvorak'',
          exp_message = js ''second'', exp_type = js ''action''\<rparr>,
         \<lparr>exp_timestamp = 1001, exp_character = js ''Jan Novak'', exp_message = js ''first'',
          exp_type = js ''text''\<rparr>]\<rparr>"
proof -
  have auth: "requireAuth demo_request" by (simp add: requireAuth_def demo_request_def)
  have room: "parseInt (params_roomId demo_request) = Num 1"
    by (simp add: demo_request_def parseInt_eval js_eval)
  have known: "\<forall>m\<in>set (messages demo_history).
                  roomId m = 1 \<longrightarrow>
                  getCharacter demo_history (JNum (characterId m)) =
                    Some ((\<lambda>m. if characterId m = 1
                              then \<lparr>firstName = js ''Jan'', middleName = None,
                                    lastName = js ''Novak'', userId = 1\<rparr>
                              else \<lparr>firstName = js ''Eva'', middleName = Some (js ''Marie''),
                                    lastName = js ''Dvorak'', userId = 2\<rparr>) m)"
    by (simp add: demo_history_def demo_store_def getCharacter_def)
  from export_projects_newest_first [OF auth room known]
  show ?thesis by (simp add: demo_history_def demo_store_def js_def)
qed

end
